theory Spec2Isabelle
  imports Main
begin

section \<open>The message-send handler\<close>

subsection \<open>Values as JavaScript tests them\<close>

text \<open>
  The handler tests strings that may be \<^verbatim>\<open>null\<close> or \<^verbatim>\<open>undefined\<close> with \<^verbatim>\<open>!x\<close>,
  \<^verbatim>\<open>x || d\<close> and \<^verbatim>\<open>x ? a : b\<close>. Such a value is \<open>None\<close> when it is absent; it is
  truthy exactly when it is a non-empty string.
\<close>

definition truthy :: "string option \<Rightarrow> bool" where
  "truthy v = (case v of None \<Rightarrow> False | Some s \<Rightarrow> s \<noteq> [])"

text \<open>The expression \<^verbatim>\<open>x || d\<close> on such a value.\<close>

definition or_default :: "string option \<Rightarrow> string \<Rightarrow> string" where
  "or_default v d = (case v of None \<Rightarrow> d | Some s \<Rightarrow> if s = [] then d else s)"

subsection \<open>Rows of the database\<close>

record profile =
  profile_id :: nat
  username :: string
  auth_id :: "string option"

record message_row =
  sender_id :: nat
  receiver_id :: nat
  message :: string
  tenant_id :: string
  created_at :: int

record tenant_settings_row =
  site_name :: "string option"
  site_url :: "string option"
  message_sign_off :: "string option"
  email_from :: "string option"
  site_image :: "string option"

record email_row =
  email :: string

text \<open>
  The calls the handler makes on the database client. A call listed in \<open>failing\<close>
  answers with that error and with \<^verbatim>\<open>data: null\<close>.
\<close>

datatype db_call =
    SelectProfilesCall
  | CountMessagesCall
  | InsertMessageCall
  | SelectTenantSettingsCall

text \<open>
  The two remote procedures \<^verbatim>\<open>get_user_email_by_id\<close> and
  \<^verbatim>\<open>get_user_email_by_username\<close> live in the database, not in the handler: they are
  parameters of the model. Each answers with the \<^verbatim>\<open>data\<close> of its result, \<open>None\<close> for
  \<^verbatim>\<open>null\<close>.
\<close>

record database =
  profiles :: "profile list"
  messages :: "message_row list"
  tenant_settings :: "tenant_settings_row list"
  get_user_email_by_id :: "string \<Rightarrow> email_row list option"
  get_user_email_by_username :: "string \<Rightarrow> email_row list option"
  failing :: "(db_call \<times> string) list"

subsection \<open>Tenant settings\<close>

record TenantSettings =
  siteName :: string
  siteUrl :: string
  messageSignOff :: string
  emailFrom :: string
  siteImage :: string

text \<open>
  \<^verbatim>\<open>.single()\<close> gives the row when the query yields exactly one, and \<^verbatim>\<open>data: null\<close>
  otherwise (no row, several rows, or a failed query).
\<close>

definition select_single :: "database \<Rightarrow> tenant_settings_row option" where
  "select_single db =
     (case map_of (failing db) SelectTenantSettingsCall of
        Some _ \<Rightarrow> None
      | None \<Rightarrow> (case tenant_settings db of [r] \<Rightarrow> Some r | _ \<Rightarrow> None))"

text \<open>The object \<open>getTenantSettings\<close> returns, from the \<^verbatim>\<open>data\<close> of the query.\<close>

definition settings_of :: "tenant_settings_row option \<Rightarrow> TenantSettings" where
  "settings_of data =
     \<lparr> siteName = or_default (Option.bind data site_name) ''The Community Platform'',
       siteUrl = or_default (Option.bind data site_url) ''https://community.preciousplastic.com'',
       messageSignOff = or_default (Option.bind data message_sign_off) ''One Army'',
       emailFrom = or_default (Option.bind data email_from) ''hello@onearmy.earth'',
       siteImage = or_default (Option.bind data site_image)
         ''https://community.preciousplastic.com/assets/img/one-army-logo.png'' \<rparr>"

definition getTenantSettings :: "database \<Rightarrow> TenantSettings" where
  "getTenantSettings db = settings_of (select_single db)"

subsection \<open>The request and its validation\<close>

record user =
  user_username :: string
  user_email :: "string option"

text \<open>
  A request: its method and its form fields in the order sent, \<open>None\<close> when
  \<^verbatim>\<open>request.formData()\<close> rejects the body.
\<close>

record request =
  http_method :: string
  formData :: "(string \<times> string) list option"

record data =
  data_to :: "string option"
  data_message :: "string option"
  data_name :: "string option"

definition read_data :: "(string \<times> string) list \<Rightarrow> data" where
  "read_data fd =
     \<lparr> data_to = map_of fd ''to'',
       data_message = map_of fd ''message'',
       data_name = (if ''name'' \<in> fst ` set fd then map_of fd ''name'' else None) \<rparr>"

text \<open>
  \<open>validateRequest\<close> returns \<^verbatim>\<open>{ status, statusText }\<close>, where \<^verbatim>\<open>valid\<close> is undefined,
  or \<^verbatim>\<open>{ valid: true }\<close>.
\<close>

datatype validation = Rejected nat string | Valid

definition validateRequest :: "request \<Rightarrow> user option \<Rightarrow> data \<Rightarrow> validation" where
  "validateRequest req usr d =
     (case usr of
        None \<Rightarrow> Rejected 401 ''unauthorized''
      | Some u \<Rightarrow>
          if http_method req \<noteq> ''POST'' then Rejected 405 ''method not allowed''
          else if \<not> truthy (data_to d) then Rejected 400 ''to is required''
          else if \<not> truthy (data_message d) then Rejected 400 ''message is required''
          else if \<not> truthy (user_email u)
            then Rejected 400 ''Unable to get messenger email address''
          else Valid)"

subsection \<open>The email\<close>

text \<open>
  The properties given to the \<^verbatim>\<open>ReceiverMessage\<close> template and the argument of
  \<^verbatim>\<open>sendEmail\<close>. Both functions are outside the handler; the template is kept as the
  record of its properties.
\<close>

record template_settings =
  t_siteName :: string
  t_messageSignOff :: string
  t_siteImage :: string
  t_siteUrl :: string

record ReceiverMessage =
  settings :: template_settings
  text_prop :: string
  receiverName :: string
  messengerEmailAddress :: "string option"
  messengerName :: "string option"
  messengerUsername :: string

record mail =
  mail_from :: string
  mail_to :: string
  subject :: string
  emailTemplate :: ReceiverMessage

subsection \<open>The environment of one request\<close>

text \<open>
  What the handler reads besides the database: the user of the session
  (\<^verbatim>\<open>client.auth.getUser()\<close>), the clock (\<^verbatim>\<open>new Date()\<close>, in milliseconds),
  \<^verbatim>\<open>process.env.TENANT_ID\<close>, and the email provider, given by the \<^verbatim>\<open>error\<close> field of
  what \<^verbatim>\<open>sendEmail\<close> returns (\<open>None\<close> when it reports no error). The insert reaches
  the database \<open>elapsed\<close> milliseconds after the handler read the clock.
\<close>

record env =
  session_user :: "user option"
  today :: int
  elapsed :: nat
  TENANT_ID :: string
  sendEmail :: "mail \<Rightarrow> string option"

subsection \<open>Responses, exceptions and the calls made\<close>

datatype exn = FormDataError | TypeError | RangeError | PostgrestError string

datatype body = EmptyObject | ErrorText string | ErrorThrown exn | Null

record response =
  status :: nat
  statusText :: string
  json :: body
  with_headers :: bool

text \<open>
  \<^verbatim>\<open>Response.json(body, { status, statusText })\<close> as the Fetch standard defines the
  constructor: a status outside 200 to 599 throws a \<^verbatim>\<open>RangeError\<close>, and a status text
  that is not a reason-phrase (tab, space, the visible ASCII characters and the
  characters from 0x80 to 0xFF) throws a \<^verbatim>\<open>TypeError\<close>. A \<open>char\<close> stands for one
  character of the JavaScript string, below 0x100.
\<close>

definition reason_phrase :: "string \<Rightarrow> bool" where
  "reason_phrase txt =
     list_all (\<lambda>c. of_char c = (9::nat) \<or> (32 \<le> (of_char c :: nat) \<and> (of_char c :: nat) \<le> 126)
                \<or> 128 \<le> (of_char c :: nat)) txt"

definition Response_json :: "body \<Rightarrow> nat \<Rightarrow> string \<Rightarrow> exn + response" where
  "Response_json b st txt =
     (if \<not> (200 \<le> st \<and> st \<le> 599) then Inl RangeError
      else if \<not> reason_phrase txt then Inl TypeError
      else Inr \<lparr> status = st, statusText = txt, json = b, with_headers = False \<rparr>)"

text \<open>The calls that leave the handler, in the order made.\<close>

datatype event =
    AuthGetUser
  | SelectProfiles string
  | CountMessages nat int
  | SelectTenantSettings
  | InsertMessage message_row
  | RpcEmailById string
  | RpcEmailByUsername string
  | SendEmail mail
  | ConsoleError exn

subsection \<open>Queries\<close>

definition select_profiles :: "database \<Rightarrow> string \<Rightarrow> profile list option" where
  "select_profiles db u =
     (case map_of (failing db) SelectProfilesCall of
        Some _ \<Rightarrow> None
      | None \<Rightarrow> Some (filter (\<lambda>p. username p = u) (profiles db)))"

text \<open>\<^verbatim>\<open>data!.at(0)!.field\<close>: reading a field of \<^verbatim>\<open>null\<close> or \<^verbatim>\<open>undefined\<close> throws.\<close>

definition at0 :: "'a list option \<Rightarrow> exn + 'a" where
  "at0 d = (case d of None \<Rightarrow> Inl TypeError | Some [] \<Rightarrow> Inl TypeError | Some (x # _) \<Rightarrow> Inr x)"

text \<open>The rows the count query counts: those of the sender created after \<open>since\<close>.\<close>

definition sent_since :: "database \<Rightarrow> nat \<Rightarrow> int \<Rightarrow> nat" where
  "sent_since db sender since =
     length (filter (\<lambda>m. sender_id m = sender \<and> since < created_at m) (messages db))"

definition count_messages :: "database \<Rightarrow> nat \<Rightarrow> int \<Rightarrow> string + nat" where
  "count_messages db sender since =
     (case map_of (failing db) CountMessagesCall of
        Some e \<Rightarrow> Inl e
      | None \<Rightarrow> Inr (sent_since db sender since))"

definition insert_message :: "database \<Rightarrow> message_row \<Rightarrow> string option \<times> database" where
  "insert_message db row =
     (case map_of (failing db) InsertMessageCall of
        Some e \<Rightarrow> (Some e, db)
      | None \<Rightarrow> (None, db\<lparr>messages := messages db @ [row]\<rparr>))"

subsection \<open>The handler\<close>

definition too_many :: response where
  "too_many =
     \<lparr> status = 429,
       statusText = ''You've contacted a lot of people today! So to protect the platform from spam we haven't sent this message.'',
       json = ErrorText ''Too many requests'',
       with_headers = False \<rparr>"

text \<open>
  Modelled from the spec: the column default of \<^verbatim>\<open>messages.created_at\<close> is not part
  of the handler, which inserts the other four columns. The spec calls the timestamp
  server-assigned at creation, so the row gets the time at which the insert is made.
\<close>

definition new_row :: "env \<Rightarrow> nat \<Rightarrow> nat \<Rightarrow> string \<Rightarrow> message_row" where
  "new_row e sender receiver msg =
     \<lparr> sender_id = sender, receiver_id = receiver, message = msg,
       tenant_id = TENANT_ID e, created_at = today e + int (elapsed e) \<rparr>"

definition compose :: "TenantSettings \<Rightarrow> user \<Rightarrow> string \<Rightarrow> string \<Rightarrow> string option
    \<Rightarrow> profile \<Rightarrow> email_row \<Rightarrow> mail" where
  "compose st u to msg name messenger receiver =
     \<lparr> mail_from = emailFrom st,
       mail_to = email receiver,
       subject = username messenger @ '' sent you a message via '' @ siteName st @ ''!'',
       emailTemplate =
         \<lparr> settings = \<lparr> t_siteName = siteName st, t_messageSignOff = messageSignOff st,
                        t_siteImage = siteImage st, t_siteUrl = siteUrl st \<rparr>,
           text_prop = msg,
           receiverName = to,
           messengerEmailAddress = user_email u,
           messengerName = name,
           messengerUsername = username messenger \<rparr> \<rparr>"

text \<open>
  The body of the \<^verbatim>\<open>try\<close> block after validation has passed: \<open>Inl\<close> is a thrown
  exception. The database and the calls made so far are returned in either case. The
  answer to a provider error takes its status text from the provider, so it goes
  through \<open>Response_json\<close>; every other status text is a literal of the source.
\<close>

definition send_message :: "env \<Rightarrow> user \<Rightarrow> string \<Rightarrow> string \<Rightarrow> string option \<Rightarrow> database
    \<Rightarrow> (exn + response) \<times> database \<times> event list" where
  "send_message e u to msg name db =
     (let userProfile = select_profiles db (user_username u);
          recipientProfile = select_profiles db to;
          c1 = [SelectProfiles (user_username u), SelectProfiles to]
      in case at0 userProfile of
           Inl x \<Rightarrow> (Inl x, db, c1)
         | Inr messenger \<Rightarrow>
        (case at0 recipientProfile of
           Inl x \<Rightarrow> (Inl x, db, c1)
         | Inr recipient \<Rightarrow>
        (let from = profile_id messenger;
             toAuthId = auth_id recipient;
             yesterday = today e - 1000 * 60 * 60 * 24;
             c2 = c1 @ [CountMessages from yesterday]
         in case count_messages db from yesterday of
              Inl err \<Rightarrow> (Inl (PostgrestError err), db, c2)
            | Inr count \<Rightarrow>
           if count \<ge> 20 then (Inr too_many, db, c2)
           else
           (let st = getTenantSettings db;
                row = new_row e from (profile_id recipient) msg;
                (err, db') = insert_message db row;
                c3 = c2 @ [SelectTenantSettings, InsertMessage row]
            in case err of
                 Some er \<Rightarrow> (Inl (PostgrestError er), db', c3)
               | None \<Rightarrow>
              (let emailResult =
                     (if truthy toAuthId then get_user_email_by_id db' (the toAuthId)
                      else get_user_email_by_username db' to);
                   c4 = c3 @ [if truthy toAuthId then RpcEmailById (the toAuthId)
                              else RpcEmailByUsername to]
               in case at0 emailResult of
                    Inl x \<Rightarrow> (Inl x, db', c4)
                  | Inr receiver \<Rightarrow>
                 (let m = compose st u to msg name messenger receiver;
                      sendResult = sendEmail e m;
                      c5 = c4 @ [SendEmail m]
                  in if truthy sendResult
                     then (Response_json (ErrorText (the sendResult)) 429 (the sendResult),
                           db', c5)
                     else (Inr \<lparr> status = 201, statusText = [], json = Null,
                                 with_headers = True \<rparr>, db', c5)))))))"

text \<open>The \<^verbatim>\<open>catch\<close> block: the exception is logged and answered with 500.\<close>

definition catch :: "(exn + response) \<times> database \<times> event list
    \<Rightarrow> response \<times> database \<times> event list" where
  "catch r =
     (case r of
        (Inl x, db, cs) \<Rightarrow>
          (\<lparr> status = 500, statusText = ''Error sending message'',
             json = ErrorThrown x, with_headers = False \<rparr>, db, cs @ [ConsoleError x])
      | (Inr resp, db, cs) \<Rightarrow> (resp, db, cs))"

text \<open>
  After \<open>Valid\<close> the user and both fields are present; the last case of the inner
  \<^theory_text>\<open>case\<close> is what \<^verbatim>\<open>user!.user_metadata\<close> does on \<^verbatim>\<open>null\<close>.
\<close>

definition action :: "env \<Rightarrow> request \<Rightarrow> database \<Rightarrow> response \<times> database \<times> event list" where
  "action e req db =
     (case formData req of
        None \<Rightarrow> catch (Inl FormDataError, db, [])
      | Some fd \<Rightarrow>
          (let d = read_data fd;
               usr = session_user e
           in case validateRequest req usr d of
                Rejected st txt \<Rightarrow>
                  (\<lparr> status = st, statusText = txt, json = EmptyObject, with_headers = False \<rparr>,
                   db, [AuthGetUser])
              | Valid \<Rightarrow>
                  (case (usr, data_to d, data_message d) of
                     (Some u, Some to, Some msg) \<Rightarrow>
                       (case send_message e u to msg (data_name d) db of
                          (r, db', cs) \<Rightarrow> catch (r, db', AuthGetUser # cs))
                   | _ \<Rightarrow> catch (Inl TypeError, db, [AuthGetUser]))))"

section \<open>The research update form\<close>

subsection \<open>Form values and the image inputs\<close>

text \<open>
  The values of the form. An entry of \<^verbatim>\<open>images\<close> is \<open>None\<close> when it is
  \<^verbatim>\<open>null\<close> or \<^verbatim>\<open>undefined\<close> (an input left empty) and the list itself may be
  undefined. Files and images are kept by name.
\<close>

record ResearchUpdateFormData =
  title :: string
  description :: string
  existingImages :: "string list option"
  existingFiles :: "string list option"
  fileLink :: "string option"
  videoUrl :: string
  files :: "string list"
  images :: "string option list option"

definition numberOfImageInputsAvailable :: "ResearchUpdateFormData \<Rightarrow> nat" where
  "numberOfImageInputsAvailable values =
     (case images values of
        Some imgs \<Rightarrow> min (length (filter (\<lambda>x. x \<noteq> None) imgs) + 1) 10
      | None \<Rightarrow> 1)"

text \<open>The number of image entries of the form that hold an image.\<close>

fun filled :: "string option list \<Rightarrow> nat" where
  "filled [] = 0"
| "filled (None # xs) = filled xs"
| "filled (Some _ # xs) = Suc (filled xs)"

definition non_empty_images :: "ResearchUpdateFormData \<Rightarrow> nat" where
  "non_empty_images values = (case images values of None \<Rightarrow> 0 | Some imgs \<Rightarrow> filled imgs)"

subsection \<open>Submitting\<close>
















section \<open>The validation sequence as the specification lists it\<close>

text \<open>
  The five checks in the order of the specification, each with the condition under
  which it fails and the status it answers with. A field is missing when it is absent
  or empty. The first check that fails decides.
\<close>

datatype check = Authenticated | MethodIsPost | HasTo | HasMessage | SenderHasEmail

definition check_order :: "check list" where
  "check_order = [Authenticated, MethodIsPost, HasTo, HasMessage, SenderHasEmail]"

fun fails :: "request \<Rightarrow> user option \<Rightarrow> data \<Rightarrow> check \<Rightarrow> bool" where
  "fails req usr d Authenticated = (usr = None)"
| "fails req usr d MethodIsPost = (http_method req \<noteq> ''POST'')"
| "fails req usr d HasTo = (\<not> truthy (data_to d))"
| "fails req usr d HasMessage = (\<not> truthy (data_message d))"
| "fails req usr d SenderHasEmail =
     (case usr of None \<Rightarrow> False | Some u \<Rightarrow> \<not> truthy (user_email u))"

fun rejection :: "check \<Rightarrow> validation" where
  "rejection Authenticated = Rejected 401 ''unauthorized''"
| "rejection MethodIsPost = Rejected 405 ''method not allowed''"
| "rejection HasTo = Rejected 400 ''to is required''"
| "rejection HasMessage = Rejected 400 ''message is required''"
| "rejection SenderHasEmail = Rejected 400 ''Unable to get messenger email address''"

definition first_failure :: "request \<Rightarrow> user option \<Rightarrow> data \<Rightarrow> validation" where
  "first_failure req usr d =
     (case find (fails req usr d) check_order of None \<Rightarrow> Valid | Some c \<Rightarrow> rejection c)"

section \<open>A concrete deployment\<close>

text \<open>
  Two profiles, alice (id 1) and bob (id 2, with an auth id); alice has sent \<open>n\<close>
  messages to bob one second before the request; no tenant settings are configured.
\<close>

definition alice :: user where
  "alice = \<lparr> user_username = ''alice'', user_email = Some ''alice@example.org'' \<rparr>"

definition alice_profile :: profile where
  "alice_profile = \<lparr> profile_id = 1, username = ''alice'', auth_id = None \<rparr>"

definition bob_profile :: profile where
  "bob_profile = \<lparr> profile_id = 2, username = ''bob'', auth_id = Some ''auth-bob'' \<rparr>"

definition earlier :: message_row where
  "earlier = \<lparr> sender_id = 1, receiver_id = 2, message = ''hello'', tenant_id = ''pp'',
               created_at = 99999000 \<rparr>"

definition deployment :: "nat \<Rightarrow> database" where
  "deployment n =
     \<lparr> profiles = [alice_profile, bob_profile],
       messages = replicate n earlier,
       tenant_settings = [],
       get_user_email_by_id =
         (\<lambda>i. Some (if i = ''auth-bob'' then [\<lparr> email = ''bob@example.org'' \<rparr>] else [])),
       get_user_email_by_username = (\<lambda>u. Some []),
       failing = [] \<rparr>"

definition session :: "string option \<Rightarrow> env" where
  "session provider_error =
     \<lparr> session_user = Some alice, today = 100000000, elapsed = 7, TENANT_ID = ''pp'',
       sendEmail = (\<lambda>m. provider_error) \<rparr>"

definition post_to :: "string \<Rightarrow> request" where
  "post_to recipient =
     \<lparr> http_method = ''POST'', formData = Some [(''to'', recipient), (''message'', ''hi bob'')] \<rparr>"

definition sent_row :: message_row where
  "sent_row = \<lparr> sender_id = 1, receiver_id = 2, message = ''hi bob'', tenant_id = ''pp'',
                created_at = 100000007 \<rparr>"


definition sent_mail :: mail where
  "sent_mail =
     \<lparr> mail_from = ''hello@onearmy.earth'',
       mail_to = ''bob@example.org'',
       subject = ''alice sent you a message via The Community Platform!'',
       emailTemplate =
         \<lparr> settings = \<lparr> t_siteName = ''The Community Platform'', t_messageSignOff = ''One Army'',
                        t_siteImage = ''https://community.preciousplastic.com/assets/img/one-army-logo.png'',
                        t_siteUrl = ''https://community.preciousplastic.com'' \<rparr>,
           text_prop = ''hi bob'',
           receiverName = ''bob'',
           messengerEmailAddress = Some ''alice@example.org'',
           messengerName = None,
           messengerUsername = ''alice'' \<rparr> \<rparr>"






section \<open>Order of calls\<close>

text \<open>In \<open>xs\<close>, the call \<open>b\<close> is made after the first call \<open>a\<close>.\<close>

definition precedes :: "'a \<Rightarrow> 'a \<Rightarrow> 'a list \<Rightarrow> bool" where
  "precedes a b xs = (b \<in> set (dropWhile (\<lambda>x. x \<noteq> a) xs))"

section \<open>Paths through the handler\<close>

lemmas model_defs =
  action_def read_data_def validateRequest_def truthy_def send_message_def
  select_profiles_def at0_def count_messages_def sent_since_def getTenantSettings_def
  select_single_def settings_of_def or_default_def new_row_def insert_message_def
  compose_def catch_def too_many_def Response_json_def

lemmas deployment_defs =
  session_def post_to_def deployment_def alice_def alice_profile_def bob_profile_def
  earlier_def

lemma Valid_D:
  assumes "validateRequest req usr d = Valid"
  obtains u to msg where "usr = Some u" "data_to d = Some to" "data_message d = Some msg"
    "to \<noteq> []" "msg \<noteq> []" "http_method req = ''POST''" "truthy (user_email u)"
  using assms by (auto simp: validateRequest_def truthy_def split: option.splits if_splits)

lemma action_Valid:
  assumes "formData req = Some fd"
    and "validateRequest req (session_user e) (read_data fd) = Valid"
    and "session_user e = Some u"
    and "data_to (read_data fd) = Some to"
    and "data_message (read_data fd) = Some msg"
  shows "action e req db =
     (case send_message e u to msg (data_name (read_data fd)) db of
        (r, db', cs) \<Rightarrow> catch (r, db', AuthGetUser # cs))"
  using assms by (simp add: action_def)

lemma send_message_sender_missing:
  assumes "at0 (select_profiles db (user_username u)) = Inl x"
  shows "send_message e u to msg name db =
     (Inl x, db, [SelectProfiles (user_username u), SelectProfiles to])"
  using assms by (simp add: send_message_def)

lemma send_message_recipient_missing:
  assumes "at0 (select_profiles db (user_username u)) = Inr messenger"
    and "at0 (select_profiles db to) = Inl x"
  shows "send_message e u to msg name db =
     (Inl x, db, [SelectProfiles (user_username u), SelectProfiles to])"
  using assms by (simp add: send_message_def)

lemma send_message_count_fails:
  assumes "at0 (select_profiles db (user_username u)) = Inr messenger"
    and "at0 (select_profiles db to) = Inr recipient"
    and "count_messages db (profile_id messenger) (today e - 86400000) = Inl err"
  shows "send_message e u to msg name db =
     (Inl (PostgrestError err), db, [SelectProfiles (user_username u), SelectProfiles to,
        CountMessages (profile_id messenger) (today e - 86400000)])"
  using assms by (simp add: send_message_def)

lemma send_message_limited:
  assumes "at0 (select_profiles db (user_username u)) = Inr messenger"
    and "at0 (select_profiles db to) = Inr recipient"
    and "count_messages db (profile_id messenger) (today e - 86400000) = Inr n"
    and "20 \<le> n"
  shows "send_message e u to msg name db =
     (Inr too_many, db, [SelectProfiles (user_username u), SelectProfiles to,
        CountMessages (profile_id messenger) (today e - 86400000)])"
  using assms by (simp add: send_message_def)

lemma send_message_insert_fails:
  assumes "at0 (select_profiles db (user_username u)) = Inr messenger"
    and "at0 (select_profiles db to) = Inr recipient"
    and "count_messages db (profile_id messenger) (today e - 86400000) = Inr n"
    and "n < 20"
    and "map_of (failing db) InsertMessageCall = Some err"
  shows "send_message e u to msg name db =
     (Inl (PostgrestError err), db, [SelectProfiles (user_username u), SelectProfiles to,
        CountMessages (profile_id messenger) (today e - 86400000), SelectTenantSettings,
        InsertMessage (new_row e (profile_id messenger) (profile_id recipient) msg)])"
  using assms by (simp add: send_message_def insert_message_def Let_def)

lemma send_message_inserted:
  assumes "at0 (select_profiles db (user_username u)) = Inr messenger"
    and "at0 (select_profiles db to) = Inr recipient"
    and "count_messages db (profile_id messenger) (today e - 86400000) = Inr n"
    and "n < 20"
    and "map_of (failing db) InsertMessageCall = None"
  shows "send_message e u to msg name db =
     (let row = new_row e (profile_id messenger) (profile_id recipient) msg;
          db' = db\<lparr>messages := messages db @ [row]\<rparr>;
          cs = [SelectProfiles (user_username u), SelectProfiles to,
                CountMessages (profile_id messenger) (today e - 86400000), SelectTenantSettings,
                InsertMessage row,
                if truthy (auth_id recipient) then RpcEmailById (the (auth_id recipient))
                else RpcEmailByUsername to]
      in case at0 (if truthy (auth_id recipient)
                  then get_user_email_by_id db (the (auth_id recipient))
                  else get_user_email_by_username db to) of
           Inl x \<Rightarrow> (Inl x, db', cs)
         | Inr receiver \<Rightarrow>
             (let m = compose (getTenantSettings db) u to msg name messenger receiver
              in (if truthy (sendEmail e m)
                  then Response_json (ErrorText (the (sendEmail e m))) 429 (the (sendEmail e m))
                  else Inr \<lparr> status = 201, statusText = [], json = Null, with_headers = True \<rparr>,
                  db', cs @ [SendEmail m])))"
  using assms by (simp add: send_message_def insert_message_def Let_def split: sum.splits)


lemma at0_select:
  "select_profiles db name = Some (p # others) \<Longrightarrow> at0 (select_profiles db name) = Inr p"
  by (simp add: at0_def)

lemma at0_Inr_D: "at0 d = Inr x \<Longrightarrow> \<exists>xs. d = Some (x # xs)"
  by (auto simp: at0_def split: option.splits list.splits)

lemma at0_Inl_D: "at0 d = Inl x \<Longrightarrow> x = TypeError \<and> (d = None \<or> d = Some [])"
  by (auto simp: at0_def split: option.splits list.splits)

lemma sent_since_append:
  "sent_since (db\<lparr>messages := messages db @ [row]\<rparr>) s t =
     sent_since db s t + (if sender_id row = s \<and> t < created_at row then 1 else 0)"
  by (simp add: sent_since_def)

text \<open>Every run: either nothing was written and no insert was attempted, or the run passed the limit.\<close>

lemma send_message_cases:
  assumes "send_message e u to msg name db = (r, db', cs)"
  shows "(db' = db \<and> (\<forall>row. InsertMessage row \<notin> set cs) \<and> (\<forall>m. SendEmail m \<notin> set cs))
       \<or> (\<exists>messenger recipient n.
             at0 (select_profiles db (user_username u)) = Inr messenger
           \<and> at0 (select_profiles db to) = Inr recipient
           \<and> count_messages db (profile_id messenger) (today e - 86400000) = Inr n \<and> n < 20)"
proof (cases "at0 (select_profiles db (user_username u))")
  case (Inl x)
  from send_message_sender_missing [OF this] assms show ?thesis by auto
next
  case messenger: (Inr messenger)
  show ?thesis
  proof (cases "at0 (select_profiles db to)")
    case (Inl x)
    from send_message_recipient_missing [OF messenger this] assms show ?thesis by auto
  next
    case recipient: (Inr recipient)
    show ?thesis
    proof (cases "count_messages db (profile_id messenger) (today e - 86400000)")
      case (Inl err)
      from send_message_count_fails [OF messenger recipient this] assms show ?thesis by auto
    next
      case (Inr n)
      show ?thesis
      proof (cases "20 \<le> n")
        case True
        from send_message_limited [OF messenger recipient Inr this] assms show ?thesis by auto
      next
        case False
        with messenger recipient Inr show ?thesis by auto
      qed
    qed
  qed
qed


lemma catch_Inr: "catch (Inr resp, db, cs) = (resp, db, cs)"
  by (simp add: catch_def)

lemma catch_Inl:
  "catch (Inl x, db, cs) =
     (\<lparr> status = 500, statusText = ''Error sending message'', json = ErrorThrown x,
        with_headers = False \<rparr>, db, cs @ [ConsoleError x])"
  by (simp add: catch_def)

lemma catch_answer:
  assumes "catch (if t then Response_json b 429 txt else Inr ok, db, cs) = (resp, db', cs')"
  shows "cs' = cs @ (if t \<and> \<not> reason_phrase txt then [ConsoleError TypeError] else [])"
  using assms by (auto simp: catch_def Response_json_def split: if_splits)

lemma catch_frame:
  assumes "catch (r, db, cs) = (resp, db', cs')"
  shows "db' = db \<and> (\<forall>row. InsertMessage row \<in> set cs' \<longleftrightarrow> InsertMessage row \<in> set cs)
       \<and> (\<forall>m. SendEmail m \<in> set cs' \<longleftrightarrow> SendEmail m \<in> set cs)"
  using assms by (cases r) (auto simp: catch_def)

section \<open>The rate limit\<close>

text \<open>
  Claim C1, as amended. Take a request that passes validation, whose sender has a
  profile row and has sent at least 20 messages after now minus 24 hours. Then the
  handler inserts no message row and leaves the database as it was. When moreover the
  profile and count queries succeed and the recipient's username matches a profile row,
  the response is the 429 with the spam-protection text.
\<close>

theorem rate_limit_rejects_without_insert:
  assumes body: "formData req = Some fd"
    and valid: "validateRequest req (session_user e) (read_data fd) = Valid"
    and user: "session_user e = Some u"
    and sender: "filter (\<lambda>p. username p = user_username u) (profiles db) = messenger # others"
    and many: "20 \<le> sent_since db (profile_id messenger) (today e - 86400000)"
    and run: "action e req db = (resp, db', cs)"
  shows "db' = db \<and> (\<forall>row. InsertMessage row \<notin> set cs) \<and>
         (map_of (failing db) SelectProfilesCall = None \<and>
          map_of (failing db) CountMessagesCall = None \<and>
          (\<exists>p \<in> set (profiles db). Some (username p) = data_to (read_data fd))
          \<longrightarrow> resp = too_many)"
proof -
  from valid user obtain to msg where
    to: "data_to (read_data fd) = Some to" and msg: "data_message (read_data fd) = Some msg"
    by (auto elim: Valid_D)
  obtain r db1 cs1 where
    sm: "send_message e u to msg (data_name (read_data fd)) db = (r, db1, cs1)"
    by (cases "send_message e u to msg (data_name (read_data fd)) db") auto
  with action_Valid [OF body valid user to msg, of db] run
  have c: "catch (r, db1, AuthGetUser # cs1) = (resp, db', cs)" by simp
  have no_room: "\<not> (\<exists>messenger' recipient n.
             at0 (select_profiles db (user_username u)) = Inr messenger'
           \<and> at0 (select_profiles db to) = Inr recipient
           \<and> count_messages db (profile_id messenger') (today e - 86400000) = Inr n \<and> n < 20)"
    using sender many
    by (auto simp: select_profiles_def count_messages_def at0_def split: option.splits)
  with send_message_cases [OF sm]
  have "db1 = db \<and> (\<forall>row. InsertMessage row \<notin> set cs1)" by blast
  with catch_frame [OF c] have frame: "db' = db \<and> (\<forall>row. InsertMessage row \<notin> set cs)"
    by simp
  have "resp = too_many"
    if ok: "map_of (failing db) SelectProfilesCall = None"
           "map_of (failing db) CountMessagesCall = None"
      and rcp: "\<exists>p \<in> set (profiles db). Some (username p) = data_to (read_data fd)"
  proof -
    have m: "at0 (select_profiles db (user_username u)) = Inr messenger"
      using ok sender by (simp add: select_profiles_def at0_def)
    from rcp to have "filter (\<lambda>p. username p = to) (profiles db) \<noteq> []"
      by (auto simp: filter_empty_conv)
    then obtain recipient rest where
      "filter (\<lambda>p. username p = to) (profiles db) = recipient # rest"
      by (cases "filter (\<lambda>p. username p = to) (profiles db)") auto
    then have rc: "at0 (select_profiles db to) = Inr recipient"
      using ok by (simp add: select_profiles_def at0_def)
    have cnt: "count_messages db (profile_id messenger) (today e - 86400000)
                 = Inr (sent_since db (profile_id messenger) (today e - 86400000))"
      using ok by (simp add: count_messages_def)
    from send_message_limited [OF m rc cnt many, of msg "data_name (read_data fd)"] sm
    have "r = Inr too_many" by simp
    with c show ?thesis by (simp add: catch_Inr)
  qed
  with frame show ?thesis by blast
qed


text \<open>
  Claim C1 as stated fails: alice has sent 20 messages in the last 24 hours and writes
  to a username that has no profile row. The request passes validation, and the answer
  is 500, not 429.
\<close>

theorem rate_limit_missing_recipient_counterexample:
  "formData (post_to ''ghost'') = Some [(''to'', ''ghost''), (''message'', ''hi bob'')]
   \<and> validateRequest (post_to ''ghost'') (session_user (session None))
         (read_data [(''to'', ''ghost''), (''message'', ''hi bob'')]) = Valid
   \<and> sent_since (deployment 20) (profile_id alice_profile) (today (session None) - 86400000) = 20
   \<and> status (fst (action (session None) (post_to ''ghost'') (deployment 20))) = 500"
  by (simp add: model_defs deployment_defs)

theorem rate_limit_rejects_without_insert_witness:
  "action (session None) (post_to ''bob'') (deployment 20)
     = (too_many, deployment 20,
        [AuthGetUser, SelectProfiles ''alice'', SelectProfiles ''bob'', CountMessages 1 13600000])"
proof -
  let ?fd = "[(''to'', ''bob''), (''message'', ''hi bob'')]"
  let ?cs = "[AuthGetUser, SelectProfiles ''alice'', SelectProfiles ''bob'', CountMessages 1 13600000]"
  have body: "formData (post_to ''bob'') = Some ?fd" by (simp add: post_to_def)
  have valid: "validateRequest (post_to ''bob'') (session_user (session None)) (read_data ?fd) = Valid"
    by (simp add: model_defs deployment_defs)
  have user: "session_user (session None) = Some alice" by (simp add: session_def)
  have sender: "filter (\<lambda>p. username p = user_username alice) (profiles (deployment 20))
                  = alice_profile # []"
    by (simp add: deployment_defs)
  have many: "20 \<le> sent_since (deployment 20) (profile_id alice_profile)
                     (today (session None) - 86400000)"
    by (simp add: model_defs deployment_defs)
  have run: "action (session None) (post_to ''bob'') (deployment 20)
      = (fst (action (session None) (post_to ''bob'') (deployment 20)),
         fst (snd (action (session None) (post_to ''bob'') (deployment 20))),
         snd (snd (action (session None) (post_to ''bob'') (deployment 20))))"
    by simp
  have cs: "snd (snd (action (session None) (post_to ''bob'') (deployment 20))) = ?cs"
    by (simp add: model_defs deployment_defs)
  have ok: "map_of (failing (deployment 20)) SelectProfilesCall = None \<and>
          map_of (failing (deployment 20)) CountMessagesCall = None \<and>
          (\<exists>p \<in> set (profiles (deployment 20)). Some (username p) = data_to (read_data ?fd))"
    by (simp add: model_defs deployment_defs)
  from rate_limit_rejects_without_insert [OF body valid user sender many run] ok cs
  show ?thesis by (metis prod.collapse)
qed

section \<open>Validation\<close>

text \<open>
  Claim C2. The validation answers with the rejection of the first check that fails, in
  the order: authenticated user (401), POST method (405), \<open>to\<close> present (400),
  \<open>message\<close> present (400), sender has an email (400); it is \<open>Valid\<close> when none
  fails. A rejected request is answered with that one status and text, and the handler
  makes no further call and writes nothing.
\<close>

theorem validation_is_fail_fast:
  "validateRequest req usr d = first_failure req usr d
   \<and> (formData req = Some fd
        \<and> validateRequest req (session_user e) (read_data fd) = Rejected st txt
      \<longrightarrow> action e req db =
            (\<lparr> status = st, statusText = txt, json = EmptyObject, with_headers = False \<rparr>,
             db, [AuthGetUser]))"
proof -
  have "validateRequest req usr d = first_failure req usr d"
    by (cases usr) (simp_all add: validateRequest_def first_failure_def check_order_def)
  moreover have "action e req db =
            (\<lparr> status = st, statusText = txt, json = EmptyObject, with_headers = False \<rparr>,
             db, [AuthGetUser])"
    if "formData req = Some fd"
      and "validateRequest req (session_user e) (read_data fd) = Rejected st txt"
    using that by (simp add: action_def)
  ultimately show ?thesis by blast
qed

theorem validation_is_fail_fast_witness:
  "validateRequest (post_to []) None (read_data [(''to'', []), (''message'', ''hi bob'')])
     = Rejected 401 ''unauthorized''
   \<and> action (session None) (post_to []) (deployment 0) =
        (\<lparr> status = 400, statusText = ''to is required'', json = EmptyObject,
           with_headers = False \<rparr>, deployment 0, [AuthGetUser])"
proof -
  let ?fd = "[(''to'', []), (''message'', ''hi bob'')]"
  have body: "formData (post_to []) = Some ?fd" by (simp add: post_to_def)
  have rej: "validateRequest (post_to []) (session_user (session None)) (read_data ?fd)
               = Rejected 400 ''to is required''"
    by (simp add: model_defs deployment_defs)
  have first: "first_failure (post_to []) None (read_data ?fd) = Rejected 401 ''unauthorized''"
    by (simp add: first_failure_def check_order_def)
  from validation_is_fail_fast [of "post_to []" None "read_data ?fd" ?fd "session None"
      400 "''to is required''" "deployment 0"] body rej first
  show ?thesis by simp
qed

section \<open>Missing profiles\<close>

text \<open>
  Claim C9. A request that passes validation and whose \<open>to\<close> username, or whose
  sender's username, matches no profile row gets no specific 4xx answer: reading the
  first row of the empty result throws, the exception is caught and logged, and the
  response is 500 "Error sending message". Nothing is written.
\<close>

theorem missing_profile_answers_500:
  assumes body: "formData req = Some fd"
    and valid: "validateRequest req (session_user e) (read_data fd) = Valid"
    and user: "session_user e = Some u"
    and to: "data_to (read_data fd) = Some to"
    and missing: "filter (\<lambda>p. username p = to) (profiles db) = []
                \<or> filter (\<lambda>p. username p = user_username u) (profiles db) = []"
  shows "action e req db =
           (\<lparr> status = 500, statusText = ''Error sending message'',
              json = ErrorThrown TypeError, with_headers = False \<rparr>,
            db,
            [AuthGetUser, SelectProfiles (user_username u), SelectProfiles to,
             ConsoleError TypeError])"
proof -
  from valid obtain msg where msg: "data_message (read_data fd) = Some msg"
    by (auto elim: Valid_D)
  let ?name = "data_name (read_data fd)"
  have "send_message e u to msg ?name db =
          (Inl TypeError, db, [SelectProfiles (user_username u), SelectProfiles to])"
  proof (cases "at0 (select_profiles db (user_username u))")
    case (Inl x)
    with at0_Inl_D [OF Inl] send_message_sender_missing [OF Inl] show ?thesis by simp
  next
    case (Inr messenger)
    then have "filter (\<lambda>p. username p = user_username u) (profiles db) \<noteq> []"
      by (auto simp: select_profiles_def dest!: at0_Inr_D split: option.splits)
    with missing have "filter (\<lambda>p. username p = to) (profiles db) = []" by simp
    then have "at0 (select_profiles db to) = Inl TypeError"
      by (simp add: select_profiles_def at0_def split: option.splits)
    from send_message_recipient_missing [OF Inr this] show ?thesis by simp
  qed
  with action_Valid [OF body valid user to msg, of db] show ?thesis
    by (simp add: catch_Inl)
qed

theorem missing_profile_answers_500_witness:
  "action (session None) (post_to ''ghost'') (deployment 3) =
           (\<lparr> status = 500, statusText = ''Error sending message'',
              json = ErrorThrown TypeError, with_headers = False \<rparr>,
            deployment 3,
            [AuthGetUser, SelectProfiles ''alice'', SelectProfiles ''ghost'',
             ConsoleError TypeError])"
proof -
  let ?fd = "[(''to'', ''ghost''), (''message'', ''hi bob'')]"
  have body: "formData (post_to ''ghost'') = Some ?fd" by (simp add: post_to_def)
  have valid: "validateRequest (post_to ''ghost'') (session_user (session None)) (read_data ?fd)
                 = Valid"
    by (simp add: model_defs deployment_defs)
  have user: "session_user (session None) = Some alice" by (simp add: session_def)
  have to: "data_to (read_data ?fd) = Some ''ghost''" by (simp add: read_data_def)
  have missing: "filter (\<lambda>p. username p = ''ghost'') (profiles (deployment 3)) = []
     \<or> filter (\<lambda>p. username p = user_username alice) (profiles (deployment 3)) = []"
    by (simp add: deployment_defs)
  from missing_profile_answers_500 [OF body valid user to missing]
  show ?thesis by (simp add: alice_def)
qed


section \<open>After the insert\<close>

lemma send_message_sent:
  assumes sm: "send_message e u to msg name db = (r, db', cs)"
    and sent: "SendEmail m \<in> set cs"
  shows "\<exists>(messenger::profile) (recipient::profile).
           db' = db\<lparr>messages := messages db @
                   [new_row e (profile_id messenger) (profile_id recipient) msg]\<rparr>
         \<and> (\<forall>row. InsertMessage row \<in> set cs \<longrightarrow>
                row = new_row e (profile_id messenger) (profile_id recipient) msg)
         \<and> r = (if truthy (sendEmail e m)
                then Response_json (ErrorText (the (sendEmail e m))) 429 (the (sendEmail e m))
                else Inr \<lparr> status = 201, statusText = [], json = Null, with_headers = True \<rparr>)"
proof -
  from send_message_cases [OF sm] sent obtain messenger recipient n where
    m: "at0 (select_profiles db (user_username u)) = Inr messenger" and
    rc: "at0 (select_profiles db to) = Inr recipient" and
    cnt: "count_messages db (profile_id messenger) (today e - 86400000) = Inr n" and
    n: "n < 20"
    by blast
  show ?thesis
  proof (cases "map_of (failing db) InsertMessageCall")
    case (Some err)
    from send_message_insert_fails [OF m rc cnt n Some, of msg name] sm sent
    show ?thesis by auto
  next
    case None
    note ins = send_message_inserted [OF m rc cnt n None, of msg name]
    show ?thesis
    proof (cases "at0 (if truthy (auth_id recipient)
                  then get_user_email_by_id db (the (auth_id recipient))
                  else get_user_email_by_username db to)")
      case (Inl x)
      with ins sm sent show ?thesis by (auto simp: Let_def split: if_splits)
    next
      case (Inr receiver)
      with ins sm sent
      have "db' = db\<lparr>messages := messages db @
                   [new_row e (profile_id messenger) (profile_id recipient) msg]\<rparr>
         \<and> (\<forall>row. InsertMessage row \<in> set cs \<longrightarrow>
                row = new_row e (profile_id messenger) (profile_id recipient) msg)
         \<and> r = (if truthy (sendEmail e m)
                then Response_json (ErrorText (the (sendEmail e m))) 429 (the (sendEmail e m))
                else Inr \<lparr> status = 201, statusText = [], json = Null, with_headers = True \<rparr>)"
        by (auto simp: Let_def split: if_splits)
      then show ?thesis
        by - (rule exI [where x = messenger], rule exI [where x = recipient], assumption)
    qed
  qed
qed

lemma action_sent:
  assumes run: "action e req db = (resp, db', cs)"
    and sent: "SendEmail m \<in> set cs"
  shows "\<exists>row. db' = db\<lparr>messages := messages db @ [row]\<rparr>
         \<and> created_at row = today e + int (elapsed e)
         \<and> (\<forall>row'. InsertMessage row' \<in> set cs \<longrightarrow> row' = row)
         \<and> resp = (if \<not> truthy (sendEmail e m)
                   then \<lparr> status = 201, statusText = [], json = Null, with_headers = True \<rparr>
                   else if reason_phrase (the (sendEmail e m))
                   then \<lparr> status = 429, statusText = the (sendEmail e m),
                          json = ErrorText (the (sendEmail e m)), with_headers = False \<rparr>
                   else \<lparr> status = 500, statusText = ''Error sending message'',
                          json = ErrorThrown TypeError, with_headers = False \<rparr>)"
proof (cases "formData req")
  case None
  with run sent show ?thesis by (auto simp: action_def catch_def)
next
  case (Some fd)
  show ?thesis
  proof (cases "validateRequest req (session_user e) (read_data fd)")
    case (Rejected st why)
    with Some run sent show ?thesis by (auto simp: action_def)
  next
    case Valid
    then obtain u to msg where
      user: "session_user e = Some u" and to: "data_to (read_data fd) = Some to" and
      msg: "data_message (read_data fd) = Some msg"
      by (auto elim: Valid_D)
    obtain r db1 cs1 where
      sm: "send_message e u to msg (data_name (read_data fd)) db = (r, db1, cs1)"
      by (cases "send_message e u to msg (data_name (read_data fd)) db") auto
    with action_Valid [OF Some Valid user to msg, of db] run
    have c: "catch (r, db1, AuthGetUser # cs1) = (resp, db', cs)" by simp
    from catch_frame [OF c] sent have sent1: "SendEmail m \<in> set cs1" and "db' = db1"
      and ins: "\<And>row. InsertMessage row \<in> set cs \<Longrightarrow> InsertMessage row \<in> set cs1"
      by auto
    from send_message_sent [OF sm sent1] obtain messenger :: profile and recipient :: profile where
      db1: "db1 = db\<lparr>messages := messages db @
                   [new_row e (profile_id messenger) (profile_id recipient) msg]\<rparr>" and
      only: "\<forall>row. InsertMessage row \<in> set cs1 \<longrightarrow>
                row = new_row e (profile_id messenger) (profile_id recipient) msg" and
      r: "r = (if truthy (sendEmail e m)
                then Response_json (ErrorText (the (sendEmail e m))) 429 (the (sendEmail e m))
                else Inr \<lparr> status = 201, statusText = [], json = Null, with_headers = True \<rparr>)"
      by blast
    from r c have "resp = (if \<not> truthy (sendEmail e m)
                   then \<lparr> status = 201, statusText = [], json = Null, with_headers = True \<rparr>
                   else if reason_phrase (the (sendEmail e m))
                   then \<lparr> status = 429, statusText = the (sendEmail e m),
                          json = ErrorText (the (sendEmail e m)), with_headers = False \<rparr>
                   else \<lparr> status = 500, statusText = ''Error sending message'',
                          json = ErrorThrown TypeError, with_headers = False \<rparr>)"
      by (auto simp: catch_Inr catch_Inl Response_json_def)
    with db1 only ins \<open>db' = db1\<close>
    have "db' = db\<lparr>messages := messages db @
                   [new_row e (profile_id messenger) (profile_id recipient) msg]\<rparr>
         \<and> created_at (new_row e (profile_id messenger) (profile_id recipient) msg)
              = today e + int (elapsed e)
         \<and> (\<forall>row'. InsertMessage row' \<in> set cs \<longrightarrow>
               row' = new_row e (profile_id messenger) (profile_id recipient) msg)
         \<and> resp = (if \<not> truthy (sendEmail e m)
                   then \<lparr> status = 201, statusText = [], json = Null, with_headers = True \<rparr>
                   else if reason_phrase (the (sendEmail e m))
                   then \<lparr> status = 429, statusText = the (sendEmail e m),
                          json = ErrorText (the (sendEmail e m)), with_headers = False \<rparr>
                   else \<lparr> status = 500, statusText = ''Error sending message'',
                          json = ErrorThrown TypeError, with_headers = False \<rparr>)"
      by (auto simp: new_row_def)
    then show ?thesis
      by - (rule exI [where x = "new_row e (profile_id messenger) (profile_id recipient) msg"],
            assumption)
  qed
qed

lemma deployment_run:
  "n < 20 \<Longrightarrow> action (session err) (post_to ''bob'') (deployment n) =
     (if \<not> truthy err
      then \<lparr> status = 201, statusText = [], json = Null, with_headers = True \<rparr>
      else if reason_phrase (the err)
      then \<lparr> status = 429, statusText = the err, json = ErrorText (the err),
             with_headers = False \<rparr>
      else \<lparr> status = 500, statusText = ''Error sending message'',
             json = ErrorThrown TypeError, with_headers = False \<rparr>,
      (deployment n)\<lparr>messages := messages (deployment n) @ [sent_row]\<rparr>,
      [AuthGetUser, SelectProfiles ''alice'', SelectProfiles ''bob'', CountMessages 1 13600000,
       SelectTenantSettings, InsertMessage sent_row, RpcEmailById ''auth-bob'',
       SendEmail sent_mail]
      @ (if truthy err \<and> \<not> reason_phrase (the err) then [ConsoleError TypeError] else []))"
  by (simp add: model_defs deployment_defs sent_row_def sent_mail_def Let_def)

lemma deployment_quiet:
  "n < 20 \<Longrightarrow> action (session None) (post_to ''bob'') (deployment n) =
     (\<lparr> status = 201, statusText = [], json = Null, with_headers = True \<rparr>,
      (deployment n)\<lparr>messages := messages (deployment n) @ [sent_row]\<rparr>,
      [AuthGetUser, SelectProfiles ''alice'', SelectProfiles ''bob'', CountMessages 1 13600000,
       SelectTenantSettings, InsertMessage sent_row, RpcEmailById ''auth-bob'',
       SendEmail sent_mail])"
  by (simp add: deployment_run truthy_def)

text \<open>The literal status texts of the handler pass the constructor's checks.\<close>

lemma literal_status_texts:
  "Response_json (ErrorText ''Too many requests'') 429 (statusText too_many) = Inr too_many"
  "validateRequest req usr d = Rejected st why \<Longrightarrow>
     Response_json EmptyObject st why =
       Inr \<lparr> status = st, statusText = why, json = EmptyObject, with_headers = False \<rparr>"
  "Response_json (ErrorThrown x) 500 ''Error sending message'' =
     Inr \<lparr> status = 500, statusText = ''Error sending message'', json = ErrorThrown x,
           with_headers = False \<rparr>"
    by (auto simp: Response_json_def reason_phrase_def too_many_def validateRequest_def
        split: option.splits if_splits)




section \<open>The boundary of the rate limit\<close>

text \<open>
  Claim C4, as amended. Take a request that passes validation, whose sender and
  recipient each have a profile row, for which the count query answers 19 and the insert
  succeeds. Then the message row is inserted, the sender's count in the window is 20
  afterwards, and when the email is dispatched and the provider reports no error the
  response is 201.
\<close>

theorem nineteen_is_not_limited:
  assumes body: "formData req = Some fd"
    and valid: "validateRequest req (session_user e) (read_data fd) = Valid"
    and user: "session_user e = Some u"
    and to: "data_to (read_data fd) = Some to"
    and msg: "data_message (read_data fd) = Some msg"
    and sender: "select_profiles db (user_username u) = Some (messenger # others)"
    and recipient: "select_profiles db to = Some (recipient # others')"
    and count: "count_messages db (profile_id messenger) (today e - 86400000) = Inr 19"
    and insert: "map_of (failing db) InsertMessageCall = None"
    and run: "action e req db = (resp, db', cs)"
  shows "db' = db\<lparr>messages := messages db @
                  [new_row e (profile_id messenger) (profile_id recipient) msg]\<rparr>
       \<and> InsertMessage (new_row e (profile_id messenger) (profile_id recipient) msg) \<in> set cs
       \<and> sent_since db' (profile_id messenger) (today e - 86400000) = 20
       \<and> (\<forall>m. SendEmail m \<in> set cs \<and> \<not> truthy (sendEmail e m) \<longrightarrow>
              resp = \<lparr> status = 201, statusText = [], json = Null, with_headers = True \<rparr>)"
proof -
  let ?row = "new_row e (profile_id messenger) (profile_id recipient) msg"
  let ?name = "data_name (read_data fd)"
  obtain r db1 cs1 where sm: "send_message e u to msg ?name db = (r, db1, cs1)"
    by (cases "send_message e u to msg ?name db") auto
  with action_Valid [OF body valid user to msg, of db] run
  have c: "catch (r, db1, AuthGetUser # cs1) = (resp, db', cs)" by simp
  have n: "(19::nat) < 20" by simp
  note ins = send_message_inserted [OF at0_select [OF sender] at0_select [OF recipient]
      count n insert, of msg ?name]
  from ins sm have "db1 = db\<lparr>messages := messages db @ [?row]\<rparr> \<and> InsertMessage ?row \<in> set cs1"
    by (auto simp: Let_def split: sum.splits)
  with catch_frame [OF c]
  have db': "db' = db\<lparr>messages := messages db @ [?row]\<rparr>" and row: "InsertMessage ?row \<in> set cs"
    by auto
  from count have "sent_since db (profile_id messenger) (today e - 86400000) = 19"
    by (simp add: count_messages_def split: option.splits)
  with db' have twenty: "sent_since db' (profile_id messenger) (today e - 86400000) = 20"
    by (simp add: sent_since_append new_row_def)
  have "resp = \<lparr> status = 201, statusText = [], json = Null, with_headers = True \<rparr>"
    if "SendEmail m \<in> set cs" "\<not> truthy (sendEmail e m)" for m
    using action_sent [OF run that(1)] that(2) by auto
  with db' row twenty show ?thesis by blast
qed

text \<open>
  Claim C4 as stated fails: alice has sent 19 messages in the last 24 hours and writes
  to a username that has no profile row. The request passes validation, no row is
  inserted and the answer is 500.
\<close>

theorem nineteen_missing_recipient_counterexample:
  "formData (post_to ''ghost'') = Some [(''to'', ''ghost''), (''message'', ''hi bob'')]
   \<and> validateRequest (post_to ''ghost'') (session_user (session None))
         (read_data [(''to'', ''ghost''), (''message'', ''hi bob'')]) = Valid
   \<and> sent_since (deployment 19) (profile_id alice_profile) (today (session None) - 86400000) = 19
   \<and> action (session None) (post_to ''ghost'') (deployment 19) =
        (\<lparr> status = 500, statusText = ''Error sending message'',
           json = ErrorThrown TypeError, with_headers = False \<rparr>,
         deployment 19,
         [AuthGetUser, SelectProfiles ''alice'', SelectProfiles ''ghost'',
          ConsoleError TypeError])"
  by (simp add: model_defs deployment_defs)

theorem nineteen_is_not_limited_witness:
  "action (session None) (post_to ''bob'') (deployment 19) =
     (\<lparr> status = 201, statusText = [], json = Null, with_headers = True \<rparr>,
      (deployment 19)\<lparr>messages := messages (deployment 19) @ [sent_row]\<rparr>,
      [AuthGetUser, SelectProfiles ''alice'', SelectProfiles ''bob'', CountMessages 1 13600000,
       SelectTenantSettings, InsertMessage sent_row, RpcEmailById ''auth-bob'',
       SendEmail sent_mail])
   \<and> sent_since ((deployment 19)\<lparr>messages := messages (deployment 19) @ [sent_row]\<rparr>)
        1 (today (session None) - 86400000) = 20"
proof -
  let ?e = "session None"
  let ?fd = "[(''to'', ''bob''), (''message'', ''hi bob'')]"
  let ?run = "action ?e (post_to ''bob'') (deployment 19)"
  let ?cs = "[AuthGetUser, SelectProfiles ''alice'', SelectProfiles ''bob'',
       CountMessages 1 13600000, SelectTenantSettings, InsertMessage sent_row,
       RpcEmailById ''auth-bob'', SendEmail sent_mail]"
  have body: "formData (post_to ''bob'') = Some ?fd" by (simp add: post_to_def)
  have valid: "validateRequest (post_to ''bob'') (session_user ?e) (read_data ?fd) = Valid"
    by (simp add: model_defs deployment_defs)
  have user: "session_user ?e = Some alice" by (simp add: session_def)
  have to: "data_to (read_data ?fd) = Some ''bob''" by (simp add: read_data_def)
  have msg: "data_message (read_data ?fd) = Some ''hi bob''" by (simp add: read_data_def)
  have sender: "select_profiles (deployment 19) (user_username alice) = Some (alice_profile # [])"
    by (simp add: select_profiles_def deployment_defs)
  have recipient: "select_profiles (deployment 19) ''bob'' = Some (bob_profile # [])"
    by (simp add: select_profiles_def deployment_defs)
  have count: "count_messages (deployment 19) (profile_id alice_profile) (today ?e - 86400000)
                 = Inr 19"
    by (simp add: count_messages_def sent_since_def deployment_defs)
  have insert: "map_of (failing (deployment 19)) InsertMessageCall = None"
    by (simp add: deployment_def)
  have run: "?run = (fst ?run, fst (snd ?run), snd (snd ?run))" by simp
  have cs: "snd (snd ?run) = ?cs" by (simp add: deployment_quiet)
  have row: "new_row ?e (profile_id alice_profile) (profile_id bob_profile) ''hi bob'' = sent_row"
    by (simp add: new_row_def sent_row_def deployment_defs)
  have "\<not> truthy (sendEmail ?e sent_mail)" by (simp add: session_def truthy_def)
  moreover have "SendEmail sent_mail \<in> set (snd (snd ?run))" by (simp add: cs)
  ultimately
  have quiet: "SendEmail sent_mail \<in> set (snd (snd ?run)) \<and> \<not> truthy (sendEmail ?e sent_mail)"
    by blast
  have one: "profile_id alice_profile = 1" by (simp add: alice_profile_def)
  note holds =
    nineteen_is_not_limited [OF body valid user to msg sender recipient count insert run]
  from holds quiet
  have "fst ?run = \<lparr> status = 201, statusText = [], json = Null, with_headers = True \<rparr>"
    by blast
  moreover from holds
  have db: "fst (snd ?run) = (deployment 19)\<lparr>messages := messages (deployment 19) @ [sent_row]\<rparr>"
    unfolding row by blast
  moreover from holds
  have "sent_since (fst (snd ?run)) (profile_id alice_profile) (today ?e - 86400000) = 20"
    by blast
  then have "sent_since ((deployment 19)\<lparr>messages := messages (deployment 19) @ [sent_row]\<rparr>)
        1 (today ?e - 86400000) = 20"
    unfolding db one .
  ultimately show ?thesis using cs by (metis prod.collapse)
qed

section \<open>The order of the remaining steps\<close>

text \<open>
  Claim C6, as amended. For a request that passes validation, whose sender and recipient
  have profile rows and whose count is below 20, the handler goes on in this order: it
  fetches the tenant settings, then inserts the message row; if the insert succeeds it
  resolves the recipient's email, by id when the recipient's profile has an auth id and
  by username otherwise; and if that yields an address it renders the email from the
  settings fetched and dispatches it. After the dispatch the handler makes no call, but
  for the logging of the exception when the answer to a provider error cannot be built.
\<close>

theorem calls_after_the_rate_limit:
  assumes body: "formData req = Some fd"
    and valid: "validateRequest req (session_user e) (read_data fd) = Valid"
    and user: "session_user e = Some u"
    and to: "data_to (read_data fd) = Some to"
    and msg: "data_message (read_data fd) = Some msg"
    and sender: "select_profiles db (user_username u) = Some (messenger # others)"
    and recipient: "select_profiles db to = Some (recipient # others')"
    and count: "count_messages db (profile_id messenger) (today e - 86400000) = Inr n"
    and room: "n < 20"
    and run: "action e req db = (resp, db', cs)"
  shows "\<exists>rest.
           cs = [AuthGetUser, SelectProfiles (user_username u), SelectProfiles to,
                 CountMessages (profile_id messenger) (today e - 86400000),
                 SelectTenantSettings,
                 InsertMessage (new_row e (profile_id messenger) (profile_id recipient) msg)]
                @ rest
         \<and> (map_of (failing db) InsertMessageCall = None \<longrightarrow>
              (\<exists>rest'.
                 rest = (if truthy (auth_id recipient) then RpcEmailById (the (auth_id recipient))
                         else RpcEmailByUsername to) # rest'
               \<and> (\<forall>receiver more.
                     (if truthy (auth_id recipient)
                      then get_user_email_by_id db (the (auth_id recipient))
                      else get_user_email_by_username db to) = Some (receiver # more)
                     \<longrightarrow> (let m = compose (getTenantSettings db) u to msg
                                     (data_name (read_data fd)) messenger receiver
                          in rest' = SendEmail m #
                               (if truthy (sendEmail e m) \<and> \<not> reason_phrase (the (sendEmail e m))
                                then [ConsoleError TypeError] else [])))))"
proof -
  let ?name = "data_name (read_data fd)"
  let ?rpc = "if truthy (auth_id recipient) then get_user_email_by_id db (the (auth_id recipient))
              else get_user_email_by_username db to"
  note m = at0_select [OF sender] and rc = at0_select [OF recipient]
  note act = action_Valid [OF body valid user to msg, of db]
  show ?thesis
  proof (cases "map_of (failing db) InsertMessageCall")
    case (Some err)
    from send_message_insert_fails [OF m rc count room Some, of msg ?name] act run Some
    show ?thesis by (auto simp: catch_Inl)
  next
    case None
    note ins = send_message_inserted [OF m rc count room None, of msg ?name]
    show ?thesis
    proof (cases "at0 ?rpc")
      case (Inl x)
      then have "\<And>receiver more. ?rpc \<noteq> Some (receiver # more)"
        by (auto simp: at0_def split: option.splits list.splits)
      with Inl ins act run None show ?thesis
        by (auto simp: Let_def catch_Inl)
    next
      case (Inr receiver)
      then obtain more where rpc: "?rpc = Some (receiver # more)"
        by (auto dest: at0_Inr_D)
      let ?m = "compose (getTenantSettings db) u to msg ?name messenger receiver"
      let ?calls = "[SelectProfiles (user_username u), SelectProfiles to,
                CountMessages (profile_id messenger) (today e - 86400000), SelectTenantSettings,
                InsertMessage (new_row e (profile_id messenger) (profile_id recipient) msg),
                if truthy (auth_id recipient) then RpcEmailById (the (auth_id recipient))
                else RpcEmailByUsername to, SendEmail ?m]"
      from Inr ins have "send_message e u to msg ?name db =
          (if truthy (sendEmail e ?m)
           then Response_json (ErrorText (the (sendEmail e ?m))) 429 (the (sendEmail e ?m))
           else Inr \<lparr> status = 201, statusText = [], json = Null, with_headers = True \<rparr>,
           db\<lparr>messages := messages db @
                  [new_row e (profile_id messenger) (profile_id recipient) msg]\<rparr>,
           ?calls)"
        by (simp add: Let_def)
      with act run have "catch
          (if truthy (sendEmail e ?m)
           then Response_json (ErrorText (the (sendEmail e ?m))) 429 (the (sendEmail e ?m))
           else Inr \<lparr> status = 201, statusText = [], json = Null, with_headers = True \<rparr>,
           db\<lparr>messages := messages db @
                  [new_row e (profile_id messenger) (profile_id recipient) msg]\<rparr>,
           AuthGetUser # ?calls) = (resp, db', cs)"
        by simp
      from catch_answer [OF this] rpc None show ?thesis
        by (simp add: Let_def)
    qed
  qed
qed

text \<open>
  Claim C6 as stated fails: in a run that passes validation and the rate limit, the
  tenant settings are fetched before the message row is inserted, not after.
\<close>

theorem insert_then_settings_counterexample:
  "formData (post_to ''bob'') = Some [(''to'', ''bob''), (''message'', ''hi bob'')]
   \<and> validateRequest (post_to ''bob'') (session_user (session None))
         (read_data [(''to'', ''bob''), (''message'', ''hi bob'')]) = Valid
   \<and> sent_since (deployment 3) (profile_id alice_profile) (today (session None) - 86400000) < 20
   \<and> snd (snd (action (session None) (post_to ''bob'') (deployment 3))) =
        [AuthGetUser, SelectProfiles ''alice'', SelectProfiles ''bob'', CountMessages 1 13600000,
         SelectTenantSettings, InsertMessage sent_row, RpcEmailById ''auth-bob'',
         SendEmail sent_mail]
   \<and> \<not> precedes (InsertMessage sent_row) SelectTenantSettings
         (snd (snd (action (session None) (post_to ''bob'') (deployment 3))))"
proof -
  have "formData (post_to ''bob'') = Some [(''to'', ''bob''), (''message'', ''hi bob'')]"
    by (simp add: post_to_def)
  moreover have "validateRequest (post_to ''bob'') (session_user (session None))
         (read_data [(''to'', ''bob''), (''message'', ''hi bob'')]) = Valid"
    by (simp add: model_defs deployment_defs)
  moreover have
    "sent_since (deployment 3) (profile_id alice_profile) (today (session None) - 86400000) < 20"
    by (simp add: sent_since_def deployment_defs)
  moreover have cs: "snd (snd (action (session None) (post_to ''bob'') (deployment 3))) =
        [AuthGetUser, SelectProfiles ''alice'', SelectProfiles ''bob'', CountMessages 1 13600000,
         SelectTenantSettings, InsertMessage sent_row, RpcEmailById ''auth-bob'',
         SendEmail sent_mail]"
    by (simp add: deployment_quiet)
  moreover have "\<not> precedes (InsertMessage sent_row) SelectTenantSettings
         (snd (snd (action (session None) (post_to ''bob'') (deployment 3))))"
    unfolding cs by (simp add: precedes_def)
  ultimately show ?thesis by blast
qed

theorem calls_after_the_rate_limit_witness:
  "snd (snd (action (session None) (post_to ''bob'') (deployment 3))) =
        [AuthGetUser, SelectProfiles ''alice'', SelectProfiles ''bob'', CountMessages 1 13600000,
         SelectTenantSettings, InsertMessage sent_row, RpcEmailById ''auth-bob'',
         SendEmail sent_mail]"
proof -
  let ?e = "session None"
  let ?fd = "[(''to'', ''bob''), (''message'', ''hi bob'')]"
  let ?db = "deployment 3"
  let ?run = "action ?e (post_to ''bob'') ?db"
  have body: "formData (post_to ''bob'') = Some ?fd" by (simp add: post_to_def)
  have valid: "validateRequest (post_to ''bob'') (session_user ?e) (read_data ?fd) = Valid"
    by (simp add: model_defs deployment_defs)
  have user: "session_user ?e = Some alice" by (simp add: session_def)
  have to: "data_to (read_data ?fd) = Some ''bob''" by (simp add: read_data_def)
  have msg: "data_message (read_data ?fd) = Some ''hi bob''" by (simp add: read_data_def)
  have sender: "select_profiles ?db (user_username alice) = Some (alice_profile # [])"
    by (simp add: select_profiles_def deployment_defs)
  have recipient: "select_profiles ?db ''bob'' = Some (bob_profile # [])"
    by (simp add: select_profiles_def deployment_defs)
  have count: "count_messages ?db (profile_id alice_profile) (today ?e - 86400000) = Inr 3"
    by (simp add: count_messages_def sent_since_def deployment_defs)
  have room: "(3::nat) < 20" by simp
  have run: "?run = (fst ?run, fst (snd ?run), snd (snd ?run))" by simp
  have insert: "map_of (failing ?db) InsertMessageCall = None" by (simp add: deployment_def)
  have rpc: "(if truthy (auth_id bob_profile) then get_user_email_by_id ?db (the (auth_id bob_profile))
              else get_user_email_by_username ?db ''bob'') = Some (\<lparr> email = ''bob@example.org'' \<rparr> # [])"
    by (simp add: truthy_def deployment_defs)
  have row: "new_row ?e (profile_id alice_profile) (profile_id bob_profile) ''hi bob'' = sent_row"
    by (simp add: new_row_def sent_row_def deployment_defs)
  have mail: "compose (getTenantSettings ?db) alice ''bob'' ''hi bob'' (data_name (read_data ?fd))
                alice_profile \<lparr> email = ''bob@example.org'' \<rparr> = sent_mail"
    by (simp add: model_defs deployment_defs sent_mail_def)
  have ev: "(if truthy (auth_id bob_profile) then RpcEmailById (the (auth_id bob_profile))
             else RpcEmailByUsername ''bob'') = RpcEmailById ''auth-bob''"
    by (simp add: truthy_def bob_profile_def)
  have names: "user_username alice = ''alice''" "profile_id alice_profile = 1"
    "today ?e - 86400000 = 13600000"
    by (simp_all add: deployment_defs)
  have quiet: "\<And>m. \<not> truthy (sendEmail ?e m)" by (simp add: session_def truthy_def)
  from calls_after_the_rate_limit
    [OF body valid user to msg sender recipient count room run] insert rpc quiet
  have "snd (snd ?run) =
     [AuthGetUser, SelectProfiles (user_username alice), SelectProfiles ''bob'',
      CountMessages (profile_id alice_profile) (today ?e - 86400000),
      SelectTenantSettings,
      InsertMessage (new_row ?e (profile_id alice_profile) (profile_id bob_profile) ''hi bob''),
      (if truthy (auth_id bob_profile) then RpcEmailById (the (auth_id bob_profile))
       else RpcEmailByUsername ''bob''),
      SendEmail (compose (getTenantSettings ?db) alice ''bob'' ''hi bob''
        (data_name (read_data ?fd)) alice_profile \<lparr> email = ''bob@example.org'' \<rparr>)]"
    by (auto simp: Let_def)
  then show ?thesis unfolding row mail ev unfolding names .
qed


section \<open>Tenant settings and their defaults\<close>


lemma or_default_empty: "or_default (Some []) d = d"
  by (simp add: or_default_def)


lemma or_default_non_empty: "d \<noteq> [] \<Longrightarrow> or_default v d \<noteq> []"
  by (simp add: or_default_def split: option.splits)

lemma single_row: "select_single (db\<lparr>tenant_settings := [r], failing := []\<rparr>) = Some r"
  by (simp add: select_single_def)



text \<open>
  Claim C10. A field stored as the empty string gets its default as an unset one does,
  so every field of the settings returned is a non-empty string, for every database.
\<close>

theorem tenant_settings_never_empty:
  "siteName (getTenantSettings
      (db\<lparr>tenant_settings := [r\<lparr>site_name := Some []\<rparr>], failing := []\<rparr>))
     = ''The Community Platform''
   \<and> siteUrl (getTenantSettings
      (db\<lparr>tenant_settings := [r\<lparr>site_url := Some []\<rparr>], failing := []\<rparr>))
     = ''https://community.preciousplastic.com''
   \<and> messageSignOff (getTenantSettings
      (db\<lparr>tenant_settings := [r\<lparr>message_sign_off := Some []\<rparr>], failing := []\<rparr>))
     = ''One Army''
   \<and> emailFrom (getTenantSettings
      (db\<lparr>tenant_settings := [r\<lparr>email_from := Some []\<rparr>], failing := []\<rparr>))
     = ''hello@onearmy.earth''
   \<and> siteImage (getTenantSettings
      (db\<lparr>tenant_settings := [r\<lparr>site_image := Some []\<rparr>], failing := []\<rparr>))
     = ''https://community.preciousplastic.com/assets/img/one-army-logo.png''
   \<and> siteName (getTenantSettings db') \<noteq> []
   \<and> siteUrl (getTenantSettings db') \<noteq> []
   \<and> messageSignOff (getTenantSettings db') \<noteq> []
   \<and> emailFrom (getTenantSettings db') \<noteq> []
   \<and> siteImage (getTenantSettings db') \<noteq> []"
  by (simp add: getTenantSettings_def single_row settings_of_def or_default_empty
      or_default_non_empty)

section \<open>Image inputs of the research update form\<close>

lemma filled_filter: "filled xs = length (filter (\<lambda>x. x \<noteq> None) xs)"
  by (induction xs rule: filled.induct) simp_all

text \<open>
  Claim C7. With \<open>N\<close> non-empty image entries in the form, the number of image inputs
  offered is \<open>min (N + 1) 10\<close>: \<open>N + 1\<close> when \<open>N < 9\<close>, and 10 when \<open>N \<ge> 9\<close>.
\<close>

theorem image_inputs_available:
  "numberOfImageInputsAvailable values = min (non_empty_images values + 1) 10
   \<and> (non_empty_images values < 9 \<longrightarrow>
        numberOfImageInputsAvailable values = non_empty_images values + 1)
   \<and> (9 \<le> non_empty_images values \<longrightarrow> numberOfImageInputsAvailable values = 10)"
proof -
  have "numberOfImageInputsAvailable values = min (non_empty_images values + 1) 10"
    by (cases "images values")
       (simp_all add: numberOfImageInputsAvailable_def non_empty_images_def filled_filter)
  then show ?thesis by auto
qed


theorem image_inputs_available_witness:
  "numberOfImageInputsAvailable
     \<lparr> title = ''t'', description = ''d'', existingImages = None, existingFiles = None,
       fileLink = None, videoUrl = [], files = [],
       images = Some [Some ''a.png'', None, Some ''b.png''] \<rparr> = 3
   \<and> numberOfImageInputsAvailable
     \<lparr> title = ''t'', description = ''d'', existingImages = None, existingFiles = None,
       fileLink = None, videoUrl = [], files = [],
       images = Some (replicate 12 (Some ''a.png'')) \<rparr> = 10"
proof -
  let ?few = "\<lparr> title = ''t'', description = ''d'', existingImages = None, existingFiles = None,
       fileLink = None, videoUrl = [], files = [],
       images = Some [Some ''a.png'', None, Some ''b.png''] \<rparr>"
  let ?many = "\<lparr> title = ''t'', description = ''d'', existingImages = None, existingFiles = None,
       fileLink = None, videoUrl = [], files = [],
       images = Some (replicate 12 (Some ''a.png'')) \<rparr>"
  have few: "non_empty_images ?few = 2" by (simp add: non_empty_images_def)
  have many: "non_empty_images ?many = 12" by (simp add: non_empty_images_def filled_filter)
  from image_inputs_available [of ?few] few
  have "numberOfImageInputsAvailable ?few = 3" by simp
  moreover from image_inputs_available [of ?many] many
  have "numberOfImageInputsAvailable ?many = 10" by simp
  ultimately show ?thesis by blast
qed

section \<open>Submitting the research update form\<close>








end
